theory Spec2Isabelle
  imports Main
begin

section \<open>Home Assistant bridge: the connection and synchronisation manager\<close>

text \<open>
  The repository holds two variants of one program: \<^verbatim>\<open>index.mjs\<close> (the
  older one) and \<^verbatim>\<open>src/main.mjs\<close>. They share \<^verbatim>\<open>call\<close>, the three
  command actions and the reconciliation of a successful \<^verbatim>\<open>result\<close> frame
  (inlined in \<^verbatim>\<open>socket.onmessage\<close> in \<^verbatim>\<open>index.mjs\<close>, the functions
  \<^verbatim>\<open>update\<close> and \<^verbatim>\<open>udpateMemory\<close> in \<^verbatim>\<open>main.mjs\<close>), statement
  for statement. They differ in \<^verbatim>\<open>connect\<close>, \<^verbatim>\<open>refresh\<close> and the socket
  handlers; those are modelled twice, with the suffixes \<open>_index\<close> and \<open>_main\<close>.
\<close>

subsection \<open>JavaScript values\<close>

text \<open>
  The fields of a decoded JSON frame that the program copies or tests for truthiness.
  \<open>JUndefined\<close> is the value of a missing property and of \<^verbatim>\<open>Map.get\<close> on a
  missing key. Numbers are the integers (the program does no arithmetic on them).
\<close>

datatype jsval = JUndefined | JNull | JBool bool | JNum int | JStr string

fun truthy :: "jsval \<Rightarrow> bool" where
  "truthy JUndefined = False"
| "truthy JNull = False"
| "truthy (JBool b) = b"
| "truthy (JNum n) = (n \<noteq> 0)"
| "truthy (JStr s) = (s \<noteq> [])"

definition js_or :: "jsval \<Rightarrow> jsval \<Rightarrow> jsval" where
  \<comment> \<open>\<^verbatim>\<open>a || b\<close>\<close>
  "js_or a b = (if truthy a then a else b)"

definition map_get :: "('k \<rightharpoonup> jsval) \<Rightarrow> 'k \<Rightarrow> jsval" where
  \<comment> \<open>\<^verbatim>\<open>Map.prototype.get\<close>\<close>
  "map_get m k = (case m k of None \<Rightarrow> JUndefined | Some v \<Rightarrow> v)"

definition startsWith :: "string \<Rightarrow> string \<Rightarrow> bool" where
  \<comment> \<open>\<^verbatim>\<open>s.startsWith(p)\<close>\<close>
  "startsWith s p = (take (length p) s = p)"

fun join :: "string \<Rightarrow> string list \<Rightarrow> string" where
  \<comment> \<open>\<^verbatim>\<open>parts.join(sep)\<close>\<close>
  "join sep [] = []"
| "join sep [x] = x"
| "join sep (x # y # ys) = x @ sep @ join sep (y # ys)"

subsection \<open>Frames and the socket\<close>

text \<open>
  An outbound frame is kept as the object handed to \<^verbatim>\<open>JSON.stringify\<close>: the
  authentication frame \<^verbatim>\<open>{type: 'auth', access_token}\<close>, or a request frame
  \<^verbatim>\<open>{type, id, ...params}\<close>, where \<open>params\<close> is absent (the five reads of
  \<^verbatim>\<open>refresh\<close>) or the \<^verbatim>\<open>{domain, service, target: {entity_id}}\<close> of a
  service call.
\<close>

record call_service_params =
  domain :: string
  service :: string
  target_entity_id :: string

datatype frame =
  Auth string
| Request string nat "call_service_params option"

datatype ready_state = CONNECTING | OPEN | CLOSING | CLOSED

record websocket =
  readyState :: ready_state
  sent :: "frame list"

subsection \<open>Inbound payloads\<close>

text \<open>The entries of the four list payloads, with the properties the program reads.\<close>

record state_entity =
  se_entity_id :: string
  se_state :: jsval
  se_unit_of_measurement :: jsval  \<comment> \<open>\<^verbatim>\<open>entity.attributes.unit_of_measurement\<close>\<close>

record floor_entry =
  fe_floor_id :: jsval
  fe_name :: jsval
  fe_level :: jsval

record area_entry =
  ae_area_id :: jsval
  ae_name :: jsval
  ae_floor_id :: jsval

record registry_entity =
  entity_id :: string
  name :: jsval
  original_name :: jsval
  area_id :: jsval

datatype result_payload =
  ConfigResult jsval  \<comment> \<open>\<^verbatim>\<open>data.result.version\<close>\<close>
| StatesResult "state_entity list"
| FloorsResult "floor_entry list"
| AreasResult "area_entry list"
| EntitiesResult "registry_entity list"
| OtherResult

datatype message =
  AuthOk
| AuthInvalid string  \<comment> \<open>\<^verbatim>\<open>data.message\<close>\<close>
| Result nat bool result_payload  \<comment> \<open>\<^verbatim>\<open>data.id\<close>, \<^verbatim>\<open>data.success\<close>, \<^verbatim>\<open>data.result\<close>\<close>
| OtherMessage

subsection \<open>The derived view\<close>

record floor =
  floor_id :: jsval
  floor_name :: jsval
  floor_level :: jsval

record room =
  room_id :: jsval
  room_name :: jsval
  room_floor_id :: jsval

text \<open>\<open>lights\<close> and \<open>shutters\<close> hold objects of one shape, \<^verbatim>\<open>{id, name, state, area_id}\<close>.\<close>

record device =
  device_id :: string
  device_name :: jsval
  device_state :: jsval
  device_area_id :: jsval

record sensor =
  sensor_id :: string
  sensor_name :: jsval
  sensor_value :: jsval
  sensor_unit :: jsval
  sensor_area_id :: jsval

record scene =
  scene_id :: string
  scene_name :: jsval
  scene_area_id :: jsval

record dump_arg =
  dump_floors :: "floor list"
  dump_rooms :: "room list"
  dump_lights :: "device list"
  dump_shutters :: "device list"
  dump_sensors :: "sensor list"
  dump_scenes :: "scene list"

datatype function_schema = updateLightsFunction | triggerScenesFunction | updateShuttersFunction

subsection \<open>Timers\<close>

datatype callback = connect_cb | refresh_cb

record timer =
  handle :: nat
  callback :: callback
  delay :: nat
  repeating :: bool  \<comment> \<open>\<^verbatim>\<open>setInterval\<close> rather than \<^verbatim>\<open>setTimeout\<close>\<close>

subsection \<open>The module state\<close>

text \<open>
  The module-level variables of both variants (\<open>interval\<close> is \<^verbatim>\<open>index.mjs\<close>'s,
  \<open>refreshTimeout\<close> and \<open>connectTimeout\<close> are \<^verbatim>\<open>main.mjs\<close>'s), followed by
  what the program writes to its collaborators: the runtime's pending timers, the host
  extension's error list, software version, instruction text and function schemas, and
  the console. The counter \<^verbatim>\<open>id\<close> is \<open>id_counter\<close>.
\<close>

record state =
  id_counter :: nat
  types :: "nat \<rightharpoonup> string"
  units :: "string \<rightharpoonup> jsval"
  states :: "string \<rightharpoonup> jsval"
  floors :: "floor list"
  rooms :: "room list"
  lights :: "device list"
  shutters :: "device list"
  sensors :: "sensor list"
  scenes :: "scene list"
  socket :: "websocket option"
  interval :: "nat option"
  refreshTimeout :: "nat option"
  connectTimeout :: "nat option"
  timers :: "timer list"
  next_handle :: nat
  errors :: "string list"
  softwareVersion :: jsval
  instructions :: string
  functionSchemas :: "function_schema list"
  console_log :: "string list"
  console_error :: "string list"

definition initial_state :: state where
  "initial_state = \<lparr>
     id_counter = 1, types = Map.empty, units = Map.empty, states = Map.empty,
     floors = [], rooms = [], lights = [], shutters = [], sensors = [], scenes = [],
     socket = None, interval = None, refreshTimeout = None, connectTimeout = None,
     timers = [], next_handle = 0, errors = [], softwareVersion = JUndefined,
     instructions = [], functionSchemas = [], console_log = [], console_error = [] \<rparr>"

subsection \<open>Collaborators: timers and the host extension\<close>

definition setTimeout :: "callback \<Rightarrow> nat \<Rightarrow> state \<Rightarrow> nat \<times> state" where
  "setTimeout cb ms s =
     (next_handle s,
      s\<lparr>timers := timers s @ [\<lparr>handle = next_handle s, callback = cb, delay = ms, repeating = False\<rparr>],
        next_handle := next_handle s + 1\<rparr>)"

definition setInterval :: "callback \<Rightarrow> nat \<Rightarrow> state \<Rightarrow> nat \<times> state" where
  "setInterval cb ms s =
     (next_handle s,
      s\<lparr>timers := timers s @ [\<lparr>handle = next_handle s, callback = cb, delay = ms, repeating = True\<rparr>],
        next_handle := next_handle s + 1\<rparr>)"

definition clearTimeout :: "nat \<Rightarrow> state \<Rightarrow> state" where
  \<comment> \<open>also \<^verbatim>\<open>clearInterval\<close>\<close>
  "clearTimeout h s = s\<lparr>timers := filter (\<lambda>t. handle t \<noteq> h) (timers s)\<rparr>"

definition addError :: "string \<Rightarrow> state \<Rightarrow> state" where
  "addError msg s = s\<lparr>errors := errors s @ [msg]\<rparr>"

definition clearErrors :: "state \<Rightarrow> state" where
  "clearErrors s = s\<lparr>errors := []\<rparr>"

subsection \<open>\<^verbatim>\<open>call\<close> and the command actions (both variants)\<close>

definition call :: "string \<Rightarrow> call_service_params option \<Rightarrow> state \<Rightarrow> bool \<times> state" where
  "call type params s =
     (case socket s of
        None \<Rightarrow> (False, s)
      | Some ws \<Rightarrow>
          if readyState ws \<noteq> OPEN then (False, s)
          else (True,
                s\<lparr>socket := Some (ws\<lparr>sent := sent ws @ [Request type (id_counter s) params]\<rparr>),
                  types := (types s)(id_counter s \<mapsto> type),
                  id_counter := id_counter s + 1\<rparr>))"

fun trigger_scenes :: "string list \<Rightarrow> state \<Rightarrow> string \<times> state" where
  "trigger_scenes [] s = (''Done.'', s)"
| "trigger_scenes (i # ids) s =
     (case call ''call_service''
             (Some \<lparr>domain = ''scene'', service = ''turn_on'', target_entity_id = i\<rparr>) s of
        (False, s') \<Rightarrow> (''Error during internal request.'', s')
      | (True, s') \<Rightarrow> trigger_scenes ids s')"

fun update_lights :: "string \<Rightarrow> string list \<Rightarrow> state \<Rightarrow> string \<times> state" where
  "update_lights action [] s = (''Done.'', s)"
| "update_lights action (i # ids) s =
     (case call ''call_service''
             (Some \<lparr>domain = ''light'', service = ''turn_'' @ action, target_entity_id = i\<rparr>) s of
        (False, s') \<Rightarrow> (''Error during internal request.'', s')
      | (True, s') \<Rightarrow> update_lights action ids s')"

fun update_shutters :: "string \<Rightarrow> string list \<Rightarrow> state \<Rightarrow> string \<times> state" where
  "update_shutters action [] s = (''Done.'', s)"
| "update_shutters action (i # ids) s =
     (case call ''call_service''
             (Some \<lparr>domain = ''cover'', service = action @ ''_cover'', target_entity_id = i\<rparr>) s of
        (False, s') \<Rightarrow> (''Error during internal request.'', s')
      | (True, s') \<Rightarrow> update_shutters action ids s')"

definition socket_open :: "state \<Rightarrow> bool" where
  \<comment> \<open>the negation of \<^verbatim>\<open>!socket || socket.readyState !== WebSocket.OPEN\<close>\<close>
  "socket_open s = (case socket s of None \<Rightarrow> False | Some ws \<Rightarrow> readyState ws = OPEN)"

definition frames_sent :: "state \<Rightarrow> frame list" where
  \<comment> \<open>what has been sent on the current socket\<close>
  "frames_sent s = (case socket s of None \<Rightarrow> [] | Some ws \<Rightarrow> sent ws)"

subsection \<open>Republishing the view: \<^verbatim>\<open>udpateMemory\<close>\<close>

definition baseInstructions :: string where
  "baseInstructions =
     [CHR 0x0A] @
     ''You are a home automation assistant, focused solely on managing connected devices in the home.'' @
     [CHR 0x0A] @
     ''When asked to calculate an average, **round to the nearest whole number** without explaining the calculation.'' @
     [CHR 0x0A]"

definition defaultInstructions :: string where
  "defaultInstructions =
     [CHR 0x0A] @
     ''Currently, there is no connected devices.'' @
     [CHR 0x0A] @
     ''Your sole task is to ask the user to install one or more connected devices in the home before proceeding.'' @
     [CHR 0x0A]"

text \<open>
  \<open>yaml_dump\<close> is \<^verbatim>\<open>yaml.dump\<close> of the js-yaml library applied to the object
  of the six static model documents (JSON files that are not among the sources) and the
  six live collections; the models are constants, so it is a function of the collections.
  \<open>instruction_parts\<close> is the array \<^verbatim>\<open>instructions\<close> before it is joined.
\<close>

definition instruction_parts :: "(dump_arg \<Rightarrow> string) \<Rightarrow> state \<Rightarrow> string list" where
  "instruction_parts yaml_dump s =
     (if length (lights s) = 0 \<and> length (shutters s) = 0 \<and>
         length (sensors s) = 0 \<and> length (scenes s) = 0
      then [baseInstructions, defaultInstructions]
      else [baseInstructions,
            ''``` yaml'',
            yaml_dump \<lparr>dump_floors = floors s, dump_rooms = rooms s, dump_lights = lights s,
                       dump_shutters = shutters s, dump_sensors = sensors s,
                       dump_scenes = scenes s\<rparr>,
            ''```''])"

text \<open>
  The three tests \<^verbatim>\<open>if (lights)\<close>, \<^verbatim>\<open>if (scenes)\<close>, \<^verbatim>\<open>if (shutters)\<close>
  are on arrays, which are truthy also when empty: all three schemas are always pushed.
\<close>

definition udpateMemory :: "(dump_arg \<Rightarrow> string) \<Rightarrow> state \<Rightarrow> state" where
  "udpateMemory yaml_dump s =
     s\<lparr>instructions := join [CHR 0x0A] (instruction_parts yaml_dump s),
       functionSchemas := [updateLightsFunction, triggerScenesFunction, updateShuttersFunction]\<rparr>"

subsection \<open>Reconciliation: \<^verbatim>\<open>update\<close>\<close>

definition set_states :: "state_entity list \<Rightarrow> (string \<rightharpoonup> jsval) \<Rightarrow> (string \<rightharpoonup> jsval)" where
  \<comment> \<open>\<^verbatim>\<open>data.result.forEach((entity) => states.set(entity.entity_id, entity.state))\<close>\<close>
  "set_states es m = foldl (\<lambda>m e. m(se_entity_id e \<mapsto> se_state e)) m es"

definition set_units :: "state_entity list \<Rightarrow> (string \<rightharpoonup> jsval) \<Rightarrow> (string \<rightharpoonup> jsval)" where
  "set_units es m =
     foldl (\<lambda>m e. m(se_entity_id e \<mapsto> se_unit_of_measurement e)) m
           (filter (\<lambda>e. se_unit_of_measurement e \<noteq> JUndefined) es)"

definition floors_of :: "floor_entry list \<Rightarrow> floor list" where
  "floors_of fs =
     map (\<lambda>f. \<lparr>floor_id = fe_floor_id f, floor_name = fe_name f, floor_level = fe_level f\<rparr>) fs"

definition rooms_of :: "area_entry list \<Rightarrow> room list" where
  "rooms_of as =
     map (\<lambda>a. \<lparr>room_id = ae_area_id a, room_name = ae_name a, room_floor_id = ae_floor_id a\<rparr>) as"

definition devices_of :: "string \<Rightarrow> (string \<rightharpoonup> jsval) \<Rightarrow> registry_entity list \<Rightarrow> device list" where
  \<comment> \<open>the \<^verbatim>\<open>filter\<close> and \<^verbatim>\<open>map\<close> of \<open>lights\<close> (prefix \<^verbatim>\<open>light\<close>) and \<open>shutters\<close> (prefix \<^verbatim>\<open>cover\<close>)\<close>
  "devices_of pre sts es =
     map (\<lambda>e. \<lparr>device_id = entity_id e,
               device_name = js_or (name e) (original_name e),
               device_state = map_get sts (entity_id e),
               device_area_id = area_id e\<rparr>)
         (filter (\<lambda>e. startsWith (entity_id e) pre) es)"

definition sensors_of ::
  "(string \<rightharpoonup> jsval) \<Rightarrow> (string \<rightharpoonup> jsval) \<Rightarrow> registry_entity list \<Rightarrow> sensor list" where
  "sensors_of sts uts es =
     map (\<lambda>e. \<lparr>sensor_id = entity_id e,
               sensor_name = js_or (name e) (original_name e),
               sensor_value = map_get sts (entity_id e),
               sensor_unit = map_get uts (entity_id e),
               sensor_area_id = area_id e\<rparr>)
         (filter (\<lambda>e. startsWith (entity_id e) ''sensor'' \<and>
                      truthy (map_get sts (entity_id e)) \<and>
                      truthy (map_get uts (entity_id e))) es)"

definition scenes_of :: "registry_entity list \<Rightarrow> scene list" where
  "scenes_of es =
     map (\<lambda>e. \<lparr>scene_id = entity_id e,
               scene_name = js_or (name e) (original_name e),
               scene_area_id = area_id e\<rparr>)
         (filter (\<lambda>e. startsWith (entity_id e) ''scene'') es)"

text \<open>
  The payload of a \<^verbatim>\<open>result\<close> frame is read in the shape of the request kind
  recorded under its \<^verbatim>\<open>id\<close>. Home Assistant answers each request in that shape;
  on any other payload the JavaScript raises a \<^verbatim>\<open>TypeError\<close> out of the handler
  or builds objects of undefined fields, and the model stops with \<open>Malformed\<close>.
  The kinds are distinct strings, so at most one of the source's five \<^verbatim>\<open>if\<close>
  statements fires; \<^verbatim>\<open>udpateMemory\<close> runs in every case. (\<^verbatim>\<open>index.mjs\<close>
  has these statements inline in \<^verbatim>\<open>socket.onmessage\<close>, with one more test,
  \<^verbatim>\<open>type === 'call_service'\<close>, nested in the branch of the entity registry, where
  it is never true.)
\<close>

datatype error = Malformed | Uncaught string

definition update :: "(dump_arg \<Rightarrow> string) \<Rightarrow> nat \<Rightarrow> result_payload \<Rightarrow> state \<Rightarrow> error + state" where
  "update yaml_dump i result s =
     (let type = types s i in
      if type = Some ''get_config'' then
        (case result of
           ConfigResult v \<Rightarrow> Inr (udpateMemory yaml_dump (s\<lparr>softwareVersion := v\<rparr>))
         | _ \<Rightarrow> Inl Malformed)
      else if type = Some ''get_states'' then
        (case result of
           StatesResult es \<Rightarrow>
             Inr (udpateMemory yaml_dump
                    (s\<lparr>states := set_states es (states s), units := set_units es (units s)\<rparr>))
         | _ \<Rightarrow> Inl Malformed)
      else if type = Some ''config/floor_registry/list'' then
        (case result of
           FloorsResult fs \<Rightarrow> Inr (udpateMemory yaml_dump (s\<lparr>floors := floors_of fs\<rparr>))
         | _ \<Rightarrow> Inl Malformed)
      else if type = Some ''config/area_registry/list'' then
        (case result of
           AreasResult as \<Rightarrow> Inr (udpateMemory yaml_dump (s\<lparr>rooms := rooms_of as\<rparr>))
         | _ \<Rightarrow> Inl Malformed)
      else if type = Some ''config/entity_registry/list'' then
        (case result of
           EntitiesResult es \<Rightarrow>
             Inr (udpateMemory yaml_dump
                    (s\<lparr>lights := devices_of ''light'' (states s) es,
                       shutters := devices_of ''cover'' (states s) es,
                       sensors := sensors_of (states s) (units s) es,
                       scenes := scenes_of es\<rparr>))
         | _ \<Rightarrow> Inl Malformed)
      else Inr (udpateMemory yaml_dump s))"

subsection \<open>The socket handlers of \<^verbatim>\<open>index.mjs\<close>\<close>

definition socket_send :: "frame \<Rightarrow> state \<Rightarrow> state" where
  "socket_send f s =
     (case socket s of
        None \<Rightarrow> s
      | Some ws \<Rightarrow> s\<lparr>socket := Some (ws\<lparr>sent := sent ws @ [f]\<rparr>)\<rparr>)"

definition five_calls :: "state \<Rightarrow> state" where
  \<comment> \<open>the five reads of \<^verbatim>\<open>refresh\<close>, whose results are dropped\<close>
  "five_calls s =
     (let s1 = snd (call ''get_config'' None s);
          s2 = snd (call ''get_states'' None s1);
          s3 = snd (call ''config/floor_registry/list'' None s2);
          s4 = snd (call ''config/area_registry/list'' None s3)
      in snd (call ''config/entity_registry/list'' None s4))"

definition refresh_index :: "state \<Rightarrow> state" where
  "refresh_index s = five_calls s"

text \<open>
  \<open>thrown\<close> is what \<^verbatim>\<open>new WebSocket(url)\<close> does: \<open>Some msg\<close> when it throws
  an error with that message, \<open>None\<close> when it returns a socket (connecting, nothing
  sent). The handlers are given with the events' data: the access token, the error's
  message, the decoded frame.
\<close>

definition new_socket :: websocket where
  "new_socket = \<lparr>readyState = CONNECTING, sent = []\<rparr>"

definition connect_index :: "string option \<Rightarrow> state \<Rightarrow> state" where
  "connect_index thrown s =
     (case thrown of
        Some msg \<Rightarrow> snd (setTimeout connect_cb 1000 (addError msg s))
      | None \<Rightarrow> s\<lparr>socket := Some new_socket\<rparr>)"

definition onerror_index :: "string \<Rightarrow> state \<Rightarrow> state" where
  "onerror_index msg s = snd (setTimeout connect_cb 1000 (addError msg s))"

definition onopen_index :: "string \<Rightarrow> state \<Rightarrow> state" where
  "onopen_index token s = socket_send (Auth token) (clearErrors s)"

definition onmessage_index :: "(dump_arg \<Rightarrow> string) \<Rightarrow> message \<Rightarrow> state \<Rightarrow> error + state" where
  "onmessage_index yaml_dump data s =
     (case data of
        AuthOk \<Rightarrow>
          (let s1 = refresh_index (clearErrors s);
               (h, s2) = setInterval refresh_cb 5000 s1
           in Inr (s2\<lparr>interval := Some h\<rparr>))
      | AuthInvalid msg \<Rightarrow> Inr (addError msg s)
      | Result i success result \<Rightarrow> if success then update yaml_dump i result s else Inr s
      | OtherMessage \<Rightarrow> Inr s)"

definition onclose_index :: "state \<Rightarrow> state" where
  "onclose_index s =
     (let s1 = (case interval s of None \<Rightarrow> s | Some h \<Rightarrow> clearTimeout h s);
          s2 = snd (setTimeout connect_cb 1000 s1)
      in addError ''Server unreachable''
           (s2\<lparr>id_counter := 1, floors := [], rooms := [], lights := [], shutters := [],
               sensors := [], scenes := []\<rparr>))"

subsection \<open>\<^verbatim>\<open>refresh\<close>, \<^verbatim>\<open>connect\<close> and the socket handlers of \<^verbatim>\<open>main.mjs\<close>\<close>

definition refresh_main :: "state \<Rightarrow> state" where
  "refresh_main s =
     (let s0 = (case refreshTimeout s of None \<Rightarrow> s | Some h \<Rightarrow> clearTimeout h s);
          s5 = five_calls s0;
          (h, s6) = setTimeout refresh_cb 60000 s5
      in s6\<lparr>refreshTimeout := Some h\<rparr>)"

text \<open>Here \<^verbatim>\<open>new WebSocket(url)\<close> is not in a \<^verbatim>\<open>try\<close>: what it throws is not caught.\<close>

definition connect_main :: "string option \<Rightarrow> state \<Rightarrow> error + state" where
  "connect_main thrown s =
     (let s0 = (case connectTimeout s of None \<Rightarrow> s | Some h \<Rightarrow> clearTimeout h s);
          s1 = s0\<lparr>floors := [], rooms := [], lights := [], shutters := [],
                  sensors := [], scenes := []\<rparr>
      in case thrown of
           Some msg \<Rightarrow> Inl (Uncaught msg)
         | None \<Rightarrow> Inr (s1\<lparr>socket := Some new_socket\<rparr>))"

definition onopen_main :: "string \<Rightarrow> state \<Rightarrow> state" where
  "onopen_main token s =
     socket_send (Auth token) (s\<lparr>console_log := console_log s @ [''Connection'']\<rparr>)"

definition onerror_main :: "bool \<Rightarrow> string \<Rightarrow> state \<Rightarrow> state" where
  \<comment> \<open>\<open>enabled\<close> is what \<^verbatim>\<open>extension.isEnabled()\<close> returns\<close>
  "onerror_main enabled msg s =
     (if enabled then s else s\<lparr>console_error := console_error s @ [msg]\<rparr>)"

definition onclose_main :: "state \<Rightarrow> state" where
  "onclose_main s =
     (let (h, s1) = setTimeout connect_cb 5000 s in s1\<lparr>connectTimeout := Some h\<rparr>)"

definition onmessage_main :: "(dump_arg \<Rightarrow> string) \<Rightarrow> message \<Rightarrow> state \<Rightarrow> error + state" where
  "onmessage_main yaml_dump data s =
     (case data of
        AuthOk \<Rightarrow>
          Inr (refresh_main (s\<lparr>console_log := console_log s @ [''Authentication successful'']\<rparr>))
      | AuthInvalid msg \<Rightarrow>
          (let (h, s1) = setTimeout connect_cb 5000 s
           in Inr (s1\<lparr>connectTimeout := Some h, id_counter := 1,
                      console_error := console_error s1 @ [''Authentication failure'']\<rparr>))
      | Result i success result \<Rightarrow> if success then update yaml_dump i result s else Inr s
      | OtherMessage \<Rightarrow> Inr s)"

subsection \<open>Runs of requests\<close>

text \<open>Any run of \<^verbatim>\<open>call\<close>s, one after the other, as \<^verbatim>\<open>refresh\<close> and the command loops make them.\<close>

fun calls :: "(string \<times> call_service_params option) list \<Rightarrow> state \<Rightarrow> state" where
  "calls [] s = s"
| "calls ((type, params) # rs) s = calls rs (snd (call type params s))"

fun numbered ::
  "nat \<Rightarrow> (string \<times> call_service_params option) list \<Rightarrow> frame list" where
  "numbered n [] = []"
| "numbered n ((type, params) # rs) = Request type n params # numbered (n + 1) rs"

fun request_ids :: "frame list \<Rightarrow> nat list" where
  \<comment> \<open>the \<^verbatim>\<open>id\<close>s of the request frames, in the order sent\<close>
  "request_ids [] = []"
| "request_ids (Auth token # fs) = request_ids fs"
| "request_ids (Request type n params # fs) = n # request_ids fs"

text \<open>Every request sent on the current socket carries an identifier below the counter.\<close>

definition ids_below_counter :: "state \<Rightarrow> bool" where
  "ids_below_counter s = (\<forall>n \<in> set (request_ids (frames_sent s)). n < id_counter s)"

definition refresh_requests :: "(string \<times> call_service_params option) list" where
  "refresh_requests =
     [(''get_config'', None), (''get_states'', None), (''config/floor_registry/list'', None),
      (''config/area_registry/list'', None), (''config/entity_registry/list'', None)]"

text \<open>The runtime changes the socket's ready state before it calls \<^verbatim>\<open>onopen\<close> or \<^verbatim>\<open>onclose\<close>.\<close>

definition set_readyState :: "ready_state \<Rightarrow> state \<Rightarrow> state" where
  "set_readyState r s =
     (case socket s of None \<Rightarrow> s | Some ws \<Rightarrow> s\<lparr>socket := Some (ws\<lparr>readyState := r\<rparr>)\<rparr>)"

subsection \<open>Example states and payloads\<close>

definition no_dump :: "dump_arg \<Rightarrow> string" where
  \<comment> \<open>stands for \<^verbatim>\<open>yaml.dump\<close> where an example needs one\<close>
  "no_dump d = []"

definition closed_state :: state where
  "closed_state = initial_state\<lparr>socket := Some \<lparr>readyState = CLOSED, sent = []\<rparr>\<rparr>"

definition open_state :: state where
  "open_state = initial_state\<lparr>socket := Some \<lparr>readyState = OPEN, sent = [Auth ''token'']\<rparr>\<rparr>"

text \<open>The socket after authentication and the first \<^verbatim>\<open>refresh\<close>.\<close>

definition refreshed_socket :: websocket where
  "refreshed_socket =
     \<lparr>readyState = OPEN,
      sent = [Auth ''token'', Request ''get_config'' 1 None, Request ''get_states'' 2 None,
              Request ''config/floor_registry/list'' 3 None,
              Request ''config/area_registry/list'' 4 None,
              Request ''config/entity_registry/list'' 5 None]\<rparr>"

text \<open>After the first \<^verbatim>\<open>refresh\<close> and a state snapshot: five kinds recorded, two states and one unit cached.\<close>

definition cached_state :: state where
  "cached_state = open_state\<lparr>
     socket := Some refreshed_socket,
     id_counter := 6,
     types := [1 \<mapsto> ''get_config'', 2 \<mapsto> ''get_states'', 3 \<mapsto> ''config/floor_registry/list'',
               4 \<mapsto> ''config/area_registry/list'', 5 \<mapsto> ''config/entity_registry/list''],
     states := [''light.a'' \<mapsto> JStr ''off'', ''sensor.t'' \<mapsto> JStr ''20''],
     units := [''sensor.t'' \<mapsto> JStr ''C'']\<rparr>"

definition light_a :: registry_entity where
  "light_a = \<lparr>entity_id = ''light.a'', name = JNull, original_name = JStr ''Lamp'',
              area_id = JStr ''kitchen''\<rparr>"

definition light_new :: registry_entity where
  "light_new = \<lparr>entity_id = ''light.new'', name = JStr ''Desk'', original_name = JStr ''Lamp 2'',
                area_id = JNull\<rparr>"

definition sensor_t :: registry_entity where
  "sensor_t = \<lparr>entity_id = ''sensor.t'', name = JNull, original_name = JStr ''Temperature'',
               area_id = JStr ''kitchen''\<rparr>"

definition sensor_h :: registry_entity where
  "sensor_h = \<lparr>entity_id = ''sensor.h'', name = JNull, original_name = JStr ''Humidity'',
               area_id = JStr ''kitchen''\<rparr>"

text \<open>
  A run of \<^verbatim>\<open>main.mjs\<close> from the start: \<^verbatim>\<open>connect\<close>, the socket opens
  and the authentication frame is sent, one light is switched before the server has
  answered, and the server answers \<^verbatim>\<open>auth_invalid\<close>.
\<close>

definition reset_while_open :: "error + state" where
  "reset_while_open =
     (case connect_main None initial_state of
        Inl e \<Rightarrow> Inl e
      | Inr s1 \<Rightarrow>
          onmessage_main no_dump (AuthInvalid ''Invalid access token or password'')
            (snd (update_lights ''on'' [''light.c'']
               (onopen_main ''token'' (set_readyState OPEN s1)))))"

text \<open>The sensor \<^verbatim>\<open>sensor.t\<close> reporting the empty string as its state.\<close>

definition empty_reading_state :: state where
  "empty_reading_state = cached_state\<lparr>states := (states cached_state)(''sensor.t'' \<mapsto> JStr [])\<rparr>"

definition ground_floor :: floor_entry where
  "ground_floor = \<lparr>fe_floor_id = JStr ''ground'', fe_name = JStr ''Ground floor'', fe_level = JNum 0\<rparr>"

section \<open>Properties\<close>

subsection \<open>Facts about \<^verbatim>\<open>call\<close>\<close>

lemma call_not_open: "\<not> socket_open s \<Longrightarrow> call type params s = (False, s)"
  by (auto simp: call_def socket_open_def split: option.splits)

lemma call_open:
  "socket s = Some ws \<Longrightarrow> readyState ws = OPEN \<Longrightarrow>
   call type params s =
     (True, s\<lparr>socket := Some (ws\<lparr>sent := sent ws @ [Request type (id_counter s) params]\<rparr>),
              types := (types s)(id_counter s \<mapsto> type),
              id_counter := id_counter s + 1\<rparr>)"
  by (simp add: call_def)

subsection \<open>Command actions\<close>

text \<open>
  C10. Each of \<^verbatim>\<open>trigger_scenes\<close>, \<^verbatim>\<open>update_lights\<close> and
  \<^verbatim>\<open>update_shutters\<close>, given an empty list of identifiers, returns
  \<^verbatim>\<open>"Done."\<close> and leaves the whole state as it is, so nothing is sent, whatever
  the socket's state: the loop body, and with it \<^verbatim>\<open>call\<close>, never runs.
\<close>

theorem commands_empty_list_done:
  "trigger_scenes [] s = (''Done.'', s) \<and>
   update_lights action [] s = (''Done.'', s) \<and>
   update_shutters action [] s = (''Done.'', s)"
  by simp

text \<open>
  C3 as stated fails on the empty list: with the socket closed, \<^verbatim>\<open>trigger_scenes([])\<close>
  returns \<^verbatim>\<open>"Done."\<close>, not the error string.
\<close>

theorem commands_not_open_counterexample:
  "\<not> socket_open closed_state \<and>
   fst (trigger_scenes [] closed_state) \<noteq> ''Error during internal request.''"
  by (simp add: closed_state_def socket_open_def initial_state_def)

text \<open>
  C3, amended. For every command action and every non-empty list of identifiers, invoking
  the action while the socket is not open (no socket, or a ready state other than
  \<open>OPEN\<close>) returns \<^verbatim>\<open>"Error during internal request."\<close> and leaves the state
  as it is: no frame is sent, no request kind recorded, the counter not advanced.
\<close>

theorem commands_not_open_error:
  assumes "\<not> socket_open s" and "ids \<noteq> []"
  shows "trigger_scenes ids s = (''Error during internal request.'', s) \<and>
         update_lights action ids s = (''Error during internal request.'', s) \<and>
         update_shutters action ids s = (''Error during internal request.'', s)"
proof -
  from assms(2) obtain i rest where ids: "ids = i # rest" by (cases ids) auto
  show ?thesis unfolding ids by (simp add: call_not_open [OF assms(1)])
qed

theorem commands_not_open_error_witness:
  "\<not> socket_open closed_state \<and> [''scene.movie''] \<noteq> [] \<and>
   trigger_scenes [''scene.movie''] closed_state = (''Error during internal request.'', closed_state) \<and>
   update_lights ''on'' [''scene.movie''] closed_state = (''Error during internal request.'', closed_state) \<and>
   update_shutters ''open'' [''scene.movie''] closed_state = (''Error during internal request.'', closed_state) \<and>
   frames_sent closed_state = []"
proof -
  have h: "\<not> socket_open closed_state"
    by (simp add: closed_state_def socket_open_def initial_state_def)
  have f: "frames_sent closed_state = []"
    by (simp add: closed_state_def frames_sent_def initial_state_def)
  show ?thesis
    using h f commands_not_open_error [OF h, of "[''scene.movie'']" "''on''"]
      commands_not_open_error [OF h, of "[''scene.movie'']" "''open''"]
    by simp
qed

subsection \<open>Identifiers below the counter\<close>

text \<open>
  A new socket has sent nothing, so its requests are below the counter whatever the
  counter holds; opening, \<^verbatim>\<open>call\<close> and the command loops keep it so. The
  counter is only ever lowered by the assignments \<^verbatim>\<open>id = 1\<close>.
\<close>

lemma request_ids_append [simp]: "request_ids (fs @ gs) = request_ids fs @ request_ids gs"
  by (induction fs rule: request_ids.induct) simp_all

lemma call_ids_below: "ids_below_counter s \<Longrightarrow> ids_below_counter (snd (call type params s))"
  by (auto simp: ids_below_counter_def call_def frames_sent_def split: option.splits)

lemma calls_ids_below: "ids_below_counter s \<Longrightarrow> ids_below_counter (calls rs s)"
  by (induction rs arbitrary: s) (auto simp: call_ids_below)

lemma update_lights_ids_below:
  "ids_below_counter s \<Longrightarrow> ids_below_counter (snd (update_lights action ids s))"
proof (induction ids arbitrary: s)
  case Nil
  then show ?case by simp
next
  case (Cons i ids)
  let ?c = "call ''call_service''
      (Some \<lparr>domain = ''light'', service = ''turn_'' @ action, target_entity_id = i\<rparr>) s"
  have b: "ids_below_counter (snd ?c)" by (rule call_ids_below [OF Cons.prems])
  show ?case
  proof (cases "fst ?c")
    case True
    then have "update_lights action (i # ids) s = update_lights action ids (snd ?c)"
      by (cases ?c) simp
    then show ?thesis using Cons.IH [OF b] by simp
  next
    case False
    then have "snd (update_lights action (i # ids) s) = snd ?c"
      by (cases ?c) simp
    then show ?thesis using b by simp
  qed
qed

lemma connect_ids_below:
  "ids_below_counter (connect_index None s)"
  "connect_main None s = Inr s' \<Longrightarrow> ids_below_counter s'"
  by (auto simp: ids_below_counter_def connect_index_def connect_main_def frames_sent_def
      new_socket_def Let_def)

lemma set_readyState_ids_below:
  "ids_below_counter (set_readyState r s) = ids_below_counter s"
  by (auto simp: ids_below_counter_def set_readyState_def frames_sent_def split: option.splits)

lemma onopen_ids_below:
  "ids_below_counter s \<Longrightarrow> ids_below_counter (onopen_index token s)"
  "ids_below_counter s \<Longrightarrow> ids_below_counter (onopen_main token s)"
  by (auto simp: ids_below_counter_def onopen_index_def onopen_main_def socket_send_def
      clearErrors_def frames_sent_def split: option.splits)

subsection \<open>Switching two lights on\<close>

text \<open>
  C4 as stated fails on freshness: in \<^verbatim>\<open>main.mjs\<close> the \<^verbatim>\<open>auth_invalid\<close>
  branch assigns \<^verbatim>\<open>id = 1\<close> while the socket is still open. After one request
  sent before the server's answer, \<^verbatim>\<open>update_lights("on", ["light.a", "light.b"])\<close>
  returns \<^verbatim>\<open>"Done."\<close> and the socket has carried the request identifiers 1, 1
  and 2: the frame for \<^verbatim>\<open>light.a\<close> reuses identifier 1.
\<close>

theorem update_lights_reused_id_counterexample:
  "\<exists>s. reset_while_open = Inr s \<and> socket_open s \<and>
       fst (update_lights ''on'' [''light.a'', ''light.b''] s) = ''Done.'' \<and>
       request_ids (frames_sent (snd (update_lights ''on'' [''light.a'', ''light.b''] s))) =
         [1, 1, 2]"
  by (simp add: reset_while_open_def connect_main_def onmessage_main_def onopen_main_def
      set_readyState_def socket_send_def setTimeout_def call_def new_socket_def
      initial_state_def frames_sent_def socket_open_def Let_def)

text \<open>
  C4, amended. With the socket open, \<^verbatim>\<open>update_lights("on", ["light.a", "light.b"])\<close>
  returns \<^verbatim>\<open>"Done."\<close> and appends exactly two frames to what the socket has
  sent: \<^verbatim>\<open>call_service\<close> requests with domain \<^verbatim>\<open>light\<close> and service
  \<^verbatim>\<open>turn_on\<close>, for \<^verbatim>\<open>light.a\<close> then \<^verbatim>\<open>light.b\<close>, carrying the
  counter's value and its successor; both are recorded as \<^verbatim>\<open>call_service\<close> in
  the pending-request table and the counter ends two higher. The two identifiers are fresh
  on the socket (no request sent on it before carries either) when every request sent on
  it before carries an identifier below the counter, and then that holds afterwards too.
\<close>

theorem update_lights_on_two:
  assumes "socket s = Some ws" and "readyState ws = OPEN"
  shows "update_lights ''on'' [''light.a'', ''light.b''] s =
     (''Done.'',
      s\<lparr>socket := Some (ws\<lparr>sent := sent ws @
            [Request ''call_service'' (id_counter s)
               (Some \<lparr>domain = ''light'', service = ''turn_on'', target_entity_id = ''light.a''\<rparr>),
             Request ''call_service'' (id_counter s + 1)
               (Some \<lparr>domain = ''light'', service = ''turn_on'', target_entity_id = ''light.b''\<rparr>)]\<rparr>),
        types := (types s)(id_counter s \<mapsto> ''call_service'', id_counter s + 1 \<mapsto> ''call_service''),
        id_counter := id_counter s + 2\<rparr>) \<and>
     request_ids (frames_sent (snd (update_lights ''on'' [''light.a'', ''light.b''] s))) =
       request_ids (frames_sent s) @ [id_counter s, id_counter s + 1] \<and>
     (ids_below_counter s \<longrightarrow>
        id_counter s \<notin> set (request_ids (frames_sent s)) \<and>
        id_counter s + 1 \<notin> set (request_ids (frames_sent s)) \<and>
        ids_below_counter (snd (update_lights ''on'' [''light.a'', ''light.b''] s)))"
proof -
  have run: "update_lights ''on'' [''light.a'', ''light.b''] s =
     (''Done.'',
      s\<lparr>socket := Some (ws\<lparr>sent := sent ws @
            [Request ''call_service'' (id_counter s)
               (Some \<lparr>domain = ''light'', service = ''turn_on'', target_entity_id = ''light.a''\<rparr>),
             Request ''call_service'' (id_counter s + 1)
               (Some \<lparr>domain = ''light'', service = ''turn_on'', target_entity_id = ''light.b''\<rparr>)]\<rparr>),
        types := (types s)(id_counter s \<mapsto> ''call_service'', id_counter s + 1 \<mapsto> ''call_service''),
        id_counter := id_counter s + 2\<rparr>)"
    using assms by (simp add: call_def)
  have ids: "request_ids (frames_sent (snd (update_lights ''on'' [''light.a'', ''light.b''] s))) =
       request_ids (frames_sent s) @ [id_counter s, id_counter s + 1]"
    unfolding run using assms by (simp add: frames_sent_def)
  have fresh: "id_counter s \<notin> set (request_ids (frames_sent s)) \<and>
        id_counter s + 1 \<notin> set (request_ids (frames_sent s))" if "ids_below_counter s"
    using that unfolding ids_below_counter_def by fastforce
  show ?thesis using run ids fresh update_lights_ids_below by blast
qed

theorem update_lights_on_two_witness:
  "socket cached_state = Some refreshed_socket \<and> readyState refreshed_socket = OPEN \<and>
   ids_below_counter cached_state \<and>
   request_ids (frames_sent cached_state) = [1, 2, 3, 4, 5] \<and> id_counter cached_state = 6 \<and>
   fst (update_lights ''on'' [''light.a'', ''light.b''] cached_state) = ''Done.'' \<and>
   frames_sent (snd (update_lights ''on'' [''light.a'', ''light.b''] cached_state)) =
     sent refreshed_socket @
     [Request ''call_service'' 6
        (Some \<lparr>domain = ''light'', service = ''turn_on'', target_entity_id = ''light.a''\<rparr>),
      Request ''call_service'' 7
        (Some \<lparr>domain = ''light'', service = ''turn_on'', target_entity_id = ''light.b''\<rparr>)] \<and>
   request_ids (frames_sent (snd (update_lights ''on'' [''light.a'', ''light.b''] cached_state))) =
     [1, 2, 3, 4, 5, 6, 7] \<and>
   6 \<notin> set (request_ids (frames_sent cached_state)) \<and>
   7 \<notin> set (request_ids (frames_sent cached_state)) \<and>
   ids_below_counter (snd (update_lights ''on'' [''light.a'', ''light.b''] cached_state)) \<and>
   id_counter (snd (update_lights ''on'' [''light.a'', ''light.b''] cached_state)) = 8"
proof -
  have a: "socket cached_state = Some refreshed_socket"
    by (simp add: cached_state_def)
  have b: "readyState refreshed_socket = OPEN" by (simp add: refreshed_socket_def)
  have c: "id_counter cached_state = 6" by (simp add: cached_state_def)
  have j: "request_ids (frames_sent cached_state) = [1, 2, 3, 4, 5]"
    by (simp add: frames_sent_def a refreshed_socket_def)
  have d: "ids_below_counter cached_state"
    unfolding ids_below_counter_def j c by simp
  note r = update_lights_on_two [OF a b]
  note run = conjunct1 [OF r]
  from r d have e: "id_counter cached_state \<notin> set (request_ids (frames_sent cached_state)) \<and>
      id_counter cached_state + 1 \<notin> set (request_ids (frames_sent cached_state)) \<and>
      ids_below_counter (snd (update_lights ''on'' [''light.a'', ''light.b''] cached_state))"
    by blast
  from r have k: "request_ids (frames_sent (snd (update_lights ''on'' [''light.a'', ''light.b''] cached_state))) =
       request_ids (frames_sent cached_state) @ [id_counter cached_state, id_counter cached_state + 1]"
    by blast
  have f: "fst (update_lights ''on'' [''light.a'', ''light.b''] cached_state) = ''Done.''"
    by (simp only: run fst_conv)
  have g: "frames_sent (snd (update_lights ''on'' [''light.a'', ''light.b''] cached_state)) =
     sent refreshed_socket @
     [Request ''call_service'' 6
        (Some \<lparr>domain = ''light'', service = ''turn_on'', target_entity_id = ''light.a''\<rparr>),
      Request ''call_service'' 7
        (Some \<lparr>domain = ''light'', service = ''turn_on'', target_entity_id = ''light.b''\<rparr>)]"
    unfolding run by (simp add: frames_sent_def c)
  have h: "id_counter (snd (update_lights ''on'' [''light.a'', ''light.b''] cached_state)) = 8"
    unfolding run by (simp add: c)
  have l: "request_ids (frames_sent (snd (update_lights ''on'' [''light.a'', ''light.b''] cached_state))) =
     [1, 2, 3, 4, 5, 6, 7]"
    unfolding k j c by simp
  from e have i: "6 \<notin> set (request_ids (frames_sent cached_state)) \<and>
      7 \<notin> set (request_ids (frames_sent cached_state)) \<and>
      ids_below_counter (snd (update_lights ''on'' [''light.a'', ''light.b''] cached_state))"
    by (simp add: c)
  show ?thesis using a b c d j f g h i l by blast
qed

subsection \<open>Facts about the reconciliation\<close>

lemma foldl_upd_find:
  "foldl (\<lambda>m e. m(f e \<mapsto> g e)) m es k =
     (case find (\<lambda>e. f e = k) (rev es) of None \<Rightarrow> m k | Some e \<Rightarrow> Some (g e))"
  by (induction es rule: rev_induct) auto

lemma find_None_image: "k \<notin> f ` set es \<Longrightarrow> find (\<lambda>e. f e = k) (rev es) = None"
  by (auto simp: find_None_iff)

lemma udpateMemory_fields [simp]:
  "states (udpateMemory d s) = states s"
  "units (udpateMemory d s) = units s"
  "types (udpateMemory d s) = types s"
  "lights (udpateMemory d s) = lights s"
  "shutters (udpateMemory d s) = shutters s"
  "sensors (udpateMemory d s) = sensors s"
  "scenes (udpateMemory d s) = scenes s"
  "floors (udpateMemory d s) = floors s"
  "rooms (udpateMemory d s) = rooms s"
  "instructions (udpateMemory d s) = join [CHR 0x0A] (instruction_parts d s)"
  by (simp_all add: udpateMemory_def)

lemma instruction_parts_udpateMemory [simp]:
  "instruction_parts d (udpateMemory d' s) = instruction_parts d s"
  by (simp add: instruction_parts_def)

lemma update_get_states:
  "types s i = Some ''get_states'' \<Longrightarrow>
   update d i (StatesResult es) s =
     Inr (udpateMemory d (s\<lparr>states := set_states es (states s), units := set_units es (units s)\<rparr>))"
  by (simp add: update_def)

lemma update_entities:
  "types s i = Some ''config/entity_registry/list'' \<Longrightarrow>
   update d i (EntitiesResult es) s =
     Inr (udpateMemory d
            (s\<lparr>lights := devices_of ''light'' (states s) es,
               shutters := devices_of ''cover'' (states s) es,
               sensors := sensors_of (states s) (units s) es,
               scenes := scenes_of es\<rparr>))"
  by (simp add: update_def)

lemma count_devices_of:
  "length (filter (\<lambda>d. device_id d = k) (devices_of pre sts es)) =
     (if startsWith k pre then length (filter (\<lambda>e. entity_id e = k) es) else 0)"
  by (induction es) (auto simp: devices_of_def)

lemma device_state_devices_of:
  "d \<in> set (devices_of pre sts es) \<Longrightarrow> device_state d = map_get sts (device_id d)"
  by (auto simp: devices_of_def)

lemma map_device_id_devices_of:
  "map device_id (devices_of pre sts es) =
     map entity_id (filter (\<lambda>e. startsWith (entity_id e) pre) es)"
  by (simp add: devices_of_def comp_def)

lemma device_id_devices_of:
  "device_id ` set (devices_of pre sts es) = {k \<in> entity_id ` set es. startsWith k pre}"
proof -
  have "device_id ` set (devices_of pre sts es) = set (map device_id (devices_of pre sts es))"
    by simp
  also have "\<dots> = entity_id ` {e \<in> set es. startsWith (entity_id e) pre}"
    by (simp only: map_device_id_devices_of set_map set_filter)
  also have "\<dots> = {k \<in> entity_id ` set es. startsWith k pre}"
    by auto
  finally show ?thesis .
qed

lemma once_of_distinct:
  "distinct (map f xs) \<Longrightarrow> x \<in> set xs \<Longrightarrow> length (filter (\<lambda>e. f e = f x) xs) = 1"
  by (induction xs) (auto simp: filter_empty_conv image_iff)

lemma sensor_id_sensors_of:
  "sensor_id ` set (sensors_of sts uts es) =
     {k \<in> entity_id ` set es. startsWith k ''sensor'' \<and> truthy (map_get sts k) \<and> truthy (map_get uts k)}"
proof -
  let ?P = "\<lambda>e. startsWith (entity_id e) ''sensor'' \<and>
                truthy (map_get sts (entity_id e)) \<and> truthy (map_get uts (entity_id e))"
  have m: "map sensor_id (sensors_of sts uts es) = map entity_id (filter ?P es)"
    by (simp add: sensors_of_def comp_def)
  have "sensor_id ` set (sensors_of sts uts es) = set (map sensor_id (sensors_of sts uts es))"
    by simp
  also have "\<dots> = entity_id ` {e \<in> set es. ?P e}"
    by (simp only: m set_map set_filter)
  also have "\<dots> = {k \<in> entity_id ` set es. startsWith k ''sensor'' \<and>
                       truthy (map_get sts k) \<and> truthy (map_get uts k)}"
    by auto
  finally show ?thesis .
qed

lemma sensor_fields_sensors_of:
  "x \<in> set (sensors_of sts uts es) \<Longrightarrow>
   sensor_value x = map_get sts (sensor_id x) \<and> sensor_unit x = map_get uts (sensor_id x)"
  by (auto simp: sensors_of_def)

lemma not_truthy_missing: "m k = None \<Longrightarrow> \<not> truthy (map_get m k)"
  by (simp add: map_get_def)

lemma types_cached_5: "types cached_state 5 = Some ''config/entity_registry/list''"
  by (simp add: cached_state_def)

lemma states_cached: "states cached_state = [''light.a'' \<mapsto> JStr ''off'', ''sensor.t'' \<mapsto> JStr ''20'']"
  by (simp add: cached_state_def)

lemma units_cached: "units cached_state = [''sensor.t'' \<mapsto> JStr ''C'']"
  by (simp add: cached_state_def)

lemma types_empty_reading_5: "types empty_reading_state 5 = Some ''config/entity_registry/list''"
  by (simp add: empty_reading_state_def cached_state_def)

subsection \<open>The state snapshot\<close>

text \<open>
  C7. A successful result whose identifier is recorded as \<^verbatim>\<open>get_states\<close> is
  processed without error; afterwards the \<open>states\<close> cache holds, for each identifier,
  the state of the last payload entity with that identifier, and its old entry when the
  payload has no such entity; the \<open>units\<close> cache holds the unit of the last payload
  entity with that identifier whose unit is not undefined, and its old entry when there is
  none. So every \<open>states\<close> entry of an identifier absent from the payload, and every
  \<open>units\<close> entry of an identifier that no payload entity reports a unit for, is left
  unchanged.
\<close>

theorem get_states_merges_caches:
  assumes "types s i = Some ''get_states''"
  shows "\<exists>s'. update yaml_dump i (StatesResult es) s = Inr s' \<and>
     (\<forall>k. states s' k =
        (case find (\<lambda>e. se_entity_id e = k) (rev es) of
           None \<Rightarrow> states s k | Some e \<Rightarrow> Some (se_state e))) \<and>
     (\<forall>k. units s' k =
        (case find (\<lambda>e. se_entity_id e = k)
                (rev (filter (\<lambda>e. se_unit_of_measurement e \<noteq> JUndefined) es)) of
           None \<Rightarrow> units s k | Some e \<Rightarrow> Some (se_unit_of_measurement e))) \<and>
     (\<forall>k. k \<notin> se_entity_id ` set es \<longrightarrow> states s' k = states s k) \<and>
     (\<forall>k. k \<notin> se_entity_id ` {e \<in> set es. se_unit_of_measurement e \<noteq> JUndefined} \<longrightarrow>
          units s' k = units s k)"
proof -
  let ?s' = "udpateMemory yaml_dump
               (s\<lparr>states := set_states es (states s), units := set_units es (units s)\<rparr>)"
  have run: "update yaml_dump i (StatesResult es) s = Inr ?s'"
    using assms by (rule update_get_states)
  have st: "states ?s' k =
      (case find (\<lambda>e. se_entity_id e = k) (rev es) of
         None \<Rightarrow> states s k | Some e \<Rightarrow> Some (se_state e))" for k
    by (simp add: set_states_def foldl_upd_find)
  have un: "units ?s' k =
      (case find (\<lambda>e. se_entity_id e = k)
              (rev (filter (\<lambda>e. se_unit_of_measurement e \<noteq> JUndefined) es)) of
         None \<Rightarrow> units s k | Some e \<Rightarrow> Some (se_unit_of_measurement e))" for k
    by (simp add: set_units_def foldl_upd_find)
  have st_frame: "states ?s' k = states s k" if "k \<notin> se_entity_id ` set es" for k
    using st [of k] find_None_image [OF that] by simp
  have un_frame: "units ?s' k = units s k"
    if "k \<notin> se_entity_id ` {e \<in> set es. se_unit_of_measurement e \<noteq> JUndefined}" for k
  proof -
    from that have "k \<notin> se_entity_id ` set (filter (\<lambda>e. se_unit_of_measurement e \<noteq> JUndefined) es)"
      by simp
    from find_None_image [OF this] un [of k] show ?thesis by simp
  qed
  show ?thesis using run st un st_frame un_frame by blast
qed

theorem get_states_merges_caches_witness:
  "types cached_state 2 = Some ''get_states'' \<and>
   (\<exists>s'. update no_dump 2
            (StatesResult
               [\<lparr>se_entity_id = ''light.a'', se_state = JStr ''on'', se_unit_of_measurement = JUndefined\<rparr>,
                \<lparr>se_entity_id = ''sensor.h'', se_state = JStr ''40'', se_unit_of_measurement = JStr ''%''\<rparr>])
            cached_state = Inr s' \<and>
      states s' ''light.a'' = Some (JStr ''on'') \<and>
      states s' ''sensor.h'' = Some (JStr ''40'') \<and>
      states s' ''sensor.t'' = Some (JStr ''20'') \<and>
      units s' ''light.a'' = None \<and>
      units s' ''sensor.h'' = Some (JStr ''%'') \<and>
      units s' ''sensor.t'' = Some (JStr ''C''))"
proof -
  have h: "types cached_state 2 = Some ''get_states''"
    by (simp add: cached_state_def)
  have st: "states cached_state = [''light.a'' \<mapsto> JStr ''off'', ''sensor.t'' \<mapsto> JStr ''20'']"
    by (simp add: cached_state_def)
  have un: "units cached_state = [''sensor.t'' \<mapsto> JStr ''C'']"
    by (simp add: cached_state_def)
  from get_states_merges_caches [OF h, of no_dump
      "[\<lparr>se_entity_id = ''light.a'', se_state = JStr ''on'', se_unit_of_measurement = JUndefined\<rparr>,
        \<lparr>se_entity_id = ''sensor.h'', se_state = JStr ''40'', se_unit_of_measurement = JStr ''%''\<rparr>]"]
  obtain s' where
    run: "update no_dump 2
            (StatesResult
               [\<lparr>se_entity_id = ''light.a'', se_state = JStr ''on'', se_unit_of_measurement = JUndefined\<rparr>,
                \<lparr>se_entity_id = ''sensor.h'', se_state = JStr ''40'', se_unit_of_measurement = JStr ''%''\<rparr>])
            cached_state = Inr s'"
    and s: "\<And>k. states s' k =
        (case find (\<lambda>e. se_entity_id e = k)
                (rev [\<lparr>se_entity_id = ''light.a'', se_state = JStr ''on'', se_unit_of_measurement = JUndefined\<rparr>,
                      \<lparr>se_entity_id = ''sensor.h'', se_state = JStr ''40'', se_unit_of_measurement = JStr ''%''\<rparr>]) of
           None \<Rightarrow> states cached_state k | Some e \<Rightarrow> Some (se_state e))"
    and u: "\<And>k. units s' k =
        (case find (\<lambda>e. se_entity_id e = k)
                (rev (filter (\<lambda>e. se_unit_of_measurement e \<noteq> JUndefined)
                   [\<lparr>se_entity_id = ''light.a'', se_state = JStr ''on'', se_unit_of_measurement = JUndefined\<rparr>,
                    \<lparr>se_entity_id = ''sensor.h'', se_state = JStr ''40'', se_unit_of_measurement = JStr ''%''\<rparr>])) of
           None \<Rightarrow> units cached_state k | Some e \<Rightarrow> Some (se_unit_of_measurement e))"
    by blast
  have "states s' ''light.a'' = Some (JStr ''on'')" by (simp add: s st)
  moreover have "states s' ''sensor.h'' = Some (JStr ''40'')" by (simp add: s st)
  moreover have "states s' ''sensor.t'' = Some (JStr ''20'')" by (simp add: s st)
  moreover have "units s' ''light.a'' = None" by (simp add: u un)
  moreover have "units s' ''sensor.h'' = Some (JStr ''%'')" by (simp add: u un)
  moreover have "units s' ''sensor.t'' = Some (JStr ''C'')" by (simp add: u un)
  ultimately show ?thesis using h run by blast
qed

subsection \<open>The entity registry listing\<close>

text \<open>
  C1 as stated fails on a listing that names an identifier twice: the \<^verbatim>\<open>filter\<close>
  and \<^verbatim>\<open>map\<close> keep both entries, and \<^verbatim>\<open>light.a\<close> is in \<open>lights\<close>
  twice.
\<close>

theorem lights_twice_counterexample:
  "\<exists>s'. update no_dump 5 (EntitiesResult [light_a, light_a]) cached_state = Inr s' \<and>
        startsWith ''light.a'' ''light'' \<and>
        length (filter (\<lambda>d. device_id d = ''light.a'') (lights s')) = 2"
  by (simp add: update_entities [OF types_cached_5] devices_of_def light_a_def startsWith_def)

text \<open>
  C1, amended. A successful result whose identifier is recorded as
  \<^verbatim>\<open>config/entity_registry/list\<close> is processed without error and leaves the
  \<open>states\<close> cache as it is; afterwards every identifier prefixed \<^verbatim>\<open>light\<close>
  is in \<open>lights\<close> as many times as it is in the payload, hence exactly once when the
  payload's identifiers are distinct; and every entry of \<open>lights\<close> has an identifier of
  the payload prefixed \<^verbatim>\<open>light\<close> and, as its \<open>state\<close>, what
  \<^verbatim>\<open>states.get\<close> returns for that identifier at reconciliation: the value last
  stored, or undefined if none was.
\<close>

theorem lights_of_registry_listing:
  assumes "types s i = Some ''config/entity_registry/list''"
  shows "\<exists>s'. update yaml_dump i (EntitiesResult es) s = Inr s' \<and>
     states s' = states s \<and>
     (\<forall>k. startsWith k ''light'' \<longrightarrow>
          length (filter (\<lambda>d. device_id d = k) (lights s')) =
          length (filter (\<lambda>e. entity_id e = k) es)) \<and>
     (distinct (map entity_id es) \<longrightarrow>
        (\<forall>e \<in> set es. startsWith (entity_id e) ''light'' \<longrightarrow>
           length (filter (\<lambda>d. device_id d = entity_id e) (lights s')) = 1)) \<and>
     (\<forall>d \<in> set (lights s').
        startsWith (device_id d) ''light'' \<and> device_id d \<in> entity_id ` set es \<and>
        device_state d = map_get (states s) (device_id d))"
proof -
  let ?s' = "udpateMemory yaml_dump
            (s\<lparr>lights := devices_of ''light'' (states s) es,
               shutters := devices_of ''cover'' (states s) es,
               sensors := sensors_of (states s) (units s) es,
               scenes := scenes_of es\<rparr>)"
  have run: "update yaml_dump i (EntitiesResult es) s = Inr ?s'"
    using assms by (rule update_entities)
  have l: "lights ?s' = devices_of ''light'' (states s) es" by simp
  have c: "length (filter (\<lambda>d. device_id d = k) (lights ?s')) =
          length (filter (\<lambda>e. entity_id e = k) es)" if "startsWith k ''light''" for k
    using that by (simp only: l count_devices_of if_True)
  have o: "length (filter (\<lambda>d. device_id d = entity_id e) (lights ?s')) = 1"
    if "distinct (map entity_id es)" "e \<in> set es" "startsWith (entity_id e) ''light''" for e
    using that c once_of_distinct [of entity_id es e] by simp
  have m: "startsWith (device_id d) ''light'' \<and> device_id d \<in> entity_id ` set es \<and>
        device_state d = map_get (states s) (device_id d)" if "d \<in> set (lights ?s')" for d
    using that device_id_devices_of [of "''light''" "states s" es]
      device_state_devices_of [of d "''light''" "states s" es] unfolding l by blast
  have st: "states ?s' = states s" by simp
  show ?thesis using run st c o m by blast
qed

theorem lights_of_registry_listing_witness:
  "types cached_state 5 = Some ''config/entity_registry/list'' \<and>
   distinct (map entity_id [light_a, sensor_t, light_new]) \<and>
   (\<exists>s'. update no_dump 5 (EntitiesResult [light_a, sensor_t, light_new]) cached_state = Inr s' \<and>
      length (filter (\<lambda>d. device_id d = ''light.a'') (lights s')) = 1 \<and>
      length (filter (\<lambda>d. device_id d = ''light.new'') (lights s')) = 1 \<and>
      lights s' =
        [\<lparr>device_id = ''light.a'', device_name = JStr ''Lamp'', device_state = JStr ''off'',
          device_area_id = JStr ''kitchen''\<rparr>,
         \<lparr>device_id = ''light.new'', device_name = JStr ''Desk'', device_state = JUndefined,
          device_area_id = JNull\<rparr>])"
proof -
  have d: "distinct (map entity_id [light_a, sensor_t, light_new])"
    by (simp add: light_a_def sensor_t_def light_new_def)
  from lights_of_registry_listing [OF types_cached_5, of no_dump "[light_a, sensor_t, light_new]"]
  obtain s' where
    run: "update no_dump 5 (EntitiesResult [light_a, sensor_t, light_new]) cached_state = Inr s'"
    and once: "distinct (map entity_id [light_a, sensor_t, light_new]) \<longrightarrow>
        (\<forall>e \<in> set [light_a, sensor_t, light_new]. startsWith (entity_id e) ''light'' \<longrightarrow>
           length (filter (\<lambda>d. device_id d = entity_id e) (lights s')) = 1)"
    by blast
  have a: "length (filter (\<lambda>d. device_id d = ''light.a'') (lights s')) = 1"
    using once d by (simp add: light_a_def startsWith_def)
  have b: "length (filter (\<lambda>d. device_id d = ''light.new'') (lights s')) = 1"
    using once d by (simp add: light_new_def startsWith_def)
  have "Inr s' = Inr (udpateMemory no_dump
            (cached_state\<lparr>lights := devices_of ''light'' (states cached_state) [light_a, sensor_t, light_new],
               shutters := devices_of ''cover'' (states cached_state) [light_a, sensor_t, light_new],
               sensors := sensors_of (states cached_state) (units cached_state) [light_a, sensor_t, light_new],
               scenes := scenes_of [light_a, sensor_t, light_new]\<rparr>))"
    using run update_entities [OF types_cached_5, of no_dump "[light_a, sensor_t, light_new]"] by simp
  then have "lights s' = devices_of ''light'' (states cached_state) [light_a, sensor_t, light_new]"
    by simp
  then have c: "lights s' =
        [\<lparr>device_id = ''light.a'', device_name = JStr ''Lamp'', device_state = JStr ''off'',
          device_area_id = JStr ''kitchen''\<rparr>,
         \<lparr>device_id = ''light.new'', device_name = JStr ''Desk'', device_state = JUndefined,
          device_area_id = JNull\<rparr>]"
    by (simp add: devices_of_def states_cached light_a_def sensor_t_def light_new_def
        startsWith_def map_get_def js_or_def)
  show ?thesis using types_cached_5 d run a b c by blast
qed

text \<open>
  C2 as stated fails on a recorded value that is falsy: with the empty string recorded as
  the state of \<^verbatim>\<open>sensor.t\<close> and \<^verbatim>\<open>C\<close> as its unit, the entity is in
  the payload, prefixed \<^verbatim>\<open>sensor\<close>, has both values recorded, and is not in
  \<open>sensors\<close>.
\<close>

theorem sensor_empty_state_counterexample:
  "\<exists>s'. update no_dump 5 (EntitiesResult [sensor_t]) empty_reading_state = Inr s' \<and>
        startsWith (entity_id sensor_t) ''sensor'' \<and>
        states empty_reading_state (entity_id sensor_t) = Some (JStr []) \<and>
        units empty_reading_state (entity_id sensor_t) = Some (JStr ''C'') \<and>
        sensors s' = []"
proof -
  note r = update_entities [OF types_empty_reading_5, of no_dump "[sensor_t]"]
  have st: "states empty_reading_state = [''light.a'' \<mapsto> JStr ''off'', ''sensor.t'' \<mapsto> JStr []]"
    by (simp add: empty_reading_state_def states_cached)
  have un: "units empty_reading_state = [''sensor.t'' \<mapsto> JStr ''C'']"
    by (simp add: empty_reading_state_def units_cached)
  have e: "sensors_of (states empty_reading_state) (units empty_reading_state) [sensor_t] = []"
    by (simp add: st un sensors_of_def sensor_t_def map_get_def)
  have p: "startsWith (entity_id sensor_t) ''sensor''"
    by (simp add: sensor_t_def startsWith_def)
  have i: "entity_id sensor_t = ''sensor.t''" by (simp add: sensor_t_def)
  show ?thesis unfolding r using e p by (simp add: i st un)
qed

text \<open>
  C2, amended. After a successful result recorded as
  \<^verbatim>\<open>config/entity_registry/list\<close>, an identifier is in \<open>sensors\<close> if and only
  if it is in the payload, is prefixed \<^verbatim>\<open>sensor\<close>, and at reconciliation
  \<^verbatim>\<open>states.get\<close> and \<^verbatim>\<open>units.get\<close> both return a truthy value for it
  (recorded, and not the empty string, null, false or zero). An identifier with no recorded
  state or no recorded unit is not in \<open>sensors\<close>. Each entry's \<open>value\<close> and
  \<open>unit\<close> are the cached ones.
\<close>

theorem sensors_of_registry_listing:
  assumes "types s i = Some ''config/entity_registry/list''"
  shows "\<exists>s'. update yaml_dump i (EntitiesResult es) s = Inr s' \<and>
     (\<forall>k. k \<in> sensor_id ` set (sensors s') \<longleftrightarrow>
          k \<in> entity_id ` set es \<and> startsWith k ''sensor'' \<and>
          truthy (map_get (states s) k) \<and> truthy (map_get (units s) k)) \<and>
     (\<forall>k. states s k = None \<or> units s k = None \<longrightarrow> k \<notin> sensor_id ` set (sensors s')) \<and>
     (\<forall>x \<in> set (sensors s').
        sensor_value x = map_get (states s) (sensor_id x) \<and>
        sensor_unit x = map_get (units s) (sensor_id x))"
proof -
  let ?s' = "udpateMemory yaml_dump
            (s\<lparr>lights := devices_of ''light'' (states s) es,
               shutters := devices_of ''cover'' (states s) es,
               sensors := sensors_of (states s) (units s) es,
               scenes := scenes_of es\<rparr>)"
  have run: "update yaml_dump i (EntitiesResult es) s = Inr ?s'"
    using assms by (rule update_entities)
  have l: "sensors ?s' = sensors_of (states s) (units s) es" by simp
  have a: "k \<in> sensor_id ` set (sensors ?s') \<longleftrightarrow>
          k \<in> entity_id ` set es \<and> startsWith k ''sensor'' \<and>
          truthy (map_get (states s) k) \<and> truthy (map_get (units s) k)" for k
    unfolding l sensor_id_sensors_of by blast
  have b: "k \<notin> sensor_id ` set (sensors ?s')" if "states s k = None \<or> units s k = None" for k
    using that a [of k] not_truthy_missing [of "states s" k] not_truthy_missing [of "units s" k]
    by blast
  have c: "sensor_value x = map_get (states s) (sensor_id x) \<and>
        sensor_unit x = map_get (units s) (sensor_id x)" if "x \<in> set (sensors ?s')" for x
    using that sensor_fields_sensors_of unfolding l by blast
  show ?thesis using run a b c by blast
qed

theorem sensors_of_registry_listing_witness:
  "types cached_state 5 = Some ''config/entity_registry/list'' \<and>
   (\<exists>s'. update no_dump 5 (EntitiesResult [light_a, sensor_t, sensor_h]) cached_state = Inr s' \<and>
      ''sensor.t'' \<in> sensor_id ` set (sensors s') \<and>
      ''sensor.h'' \<notin> sensor_id ` set (sensors s') \<and>
      ''light.a'' \<notin> sensor_id ` set (sensors s'))"
proof -
  from sensors_of_registry_listing [OF types_cached_5, of no_dump "[light_a, sensor_t, sensor_h]"]
  obtain s' where
    run: "update no_dump 5 (EntitiesResult [light_a, sensor_t, sensor_h]) cached_state = Inr s'"
    and iff: "\<And>k. k \<in> sensor_id ` set (sensors s') \<longleftrightarrow>
          k \<in> entity_id ` set [light_a, sensor_t, sensor_h] \<and> startsWith k ''sensor'' \<and>
          truthy (map_get (states cached_state) k) \<and> truthy (map_get (units cached_state) k)"
    and missing: "\<And>k. states cached_state k = None \<or> units cached_state k = None \<longrightarrow>
          k \<notin> sensor_id ` set (sensors s')"
    by blast
  have a: "''sensor.t'' \<in> sensor_id ` set (sensors s')"
    by (simp add: iff states_cached units_cached map_get_def startsWith_def
        light_a_def sensor_t_def sensor_h_def)
  have b: "''sensor.h'' \<notin> sensor_id ` set (sensors s')"
    using missing [of "''sensor.h''"] by (simp add: states_cached)
  have c: "''light.a'' \<notin> sensor_id ` set (sensors s')"
    by (simp add: iff startsWith_def)
  show ?thesis using types_cached_5 run a b c by blast
qed

subsection \<open>The instruction text\<close>

lemma update_Inr_udpateMemory:
  "update d i r s = Inr s' \<Longrightarrow> \<exists>s0. s' = udpateMemory d s0"
  by (auto simp: update_def Let_def split: if_splits result_payload.splits)

lemma default_not_fence: "defaultInstructions \<noteq> ''``` yaml''"
  by (simp add: defaultInstructions_def)

lemma instruction_parts_fallback_iff:
  "instruction_parts d s = [baseInstructions, defaultInstructions] \<longleftrightarrow>
   lights s = [] \<and> shutters s = [] \<and> sensors s = [] \<and> scenes s = []"
  by (simp add: instruction_parts_def default_not_fence)

lemma instruction_parts_dump:
  "\<not> (lights s = [] \<and> shutters s = [] \<and> sensors s = [] \<and> scenes s = []) \<Longrightarrow>
   instruction_parts d s =
     [baseInstructions, ''``` yaml'',
      d \<lparr>dump_floors = floors s, dump_rooms = rooms s, dump_lights = lights s,
         dump_shutters = shutters s, dump_sensors = sensors s, dump_scenes = scenes s\<rparr>,
      ''```'']"
  by (auto simp add: instruction_parts_def)

lemma types_cached_3: "types cached_state 3 = Some ''config/floor_registry/list''"
  by (simp add: cached_state_def)

lemma update_floors:
  "types s i = Some ''config/floor_registry/list'' \<Longrightarrow>
   update d i (FloorsResult fs) s = Inr (udpateMemory d (s\<lparr>floors := floors_of fs\<rparr>))"
  by (simp add: update_def)

lemma views_cached:
  "lights cached_state = []" "shutters cached_state = []"
  "sensors cached_state = []" "scenes cached_state = []"
  by (simp_all add: cached_state_def open_state_def initial_state_def)

text \<open>
  C9 as stated fails when only \<open>floors\<close> or \<open>rooms\<close> hold entries: after a floor
  registry listing with one floor, not all derived collections are empty, and the
  instruction text is the preamble with the fallback block.
\<close>

theorem fallback_with_floors_counterexample:
  "\<exists>s'. update no_dump 3 (FloorsResult [ground_floor]) cached_state = Inr s' \<and>
        floors s' \<noteq> [] \<and>
        instruction_parts no_dump s' = [baseInstructions, defaultInstructions] \<and>
        instructions s' = join [CHR 0x0A] [baseInstructions, defaultInstructions]"
  unfolding update_floors [OF types_cached_3]
  by (simp add: floors_of_def instruction_parts_def views_cached)

text \<open>
  C9, amended. After every reconciliation step that returns, the published instruction
  text is the array of instruction parts joined by newlines; the parts are the preamble
  and the fixed fallback block if and only if \<open>lights\<close>, \<open>shutters\<close>, \<open>sensors\<close>
  and \<open>scenes\<close> are all empty (\<open>floors\<close> and \<open>rooms\<close> are not looked at);
  otherwise they are the preamble, the opening fence, the serialized dump of the static
  models with the six live collections, and the closing fence.
\<close>

theorem instructions_after_update:
  assumes "update yaml_dump i result s = Inr s'"
  shows "instructions s' = join [CHR 0x0A] (instruction_parts yaml_dump s') \<and>
     (instruction_parts yaml_dump s' = [baseInstructions, defaultInstructions] \<longleftrightarrow>
        lights s' = [] \<and> shutters s' = [] \<and> sensors s' = [] \<and> scenes s' = []) \<and>
     (\<not> (lights s' = [] \<and> shutters s' = [] \<and> sensors s' = [] \<and> scenes s' = []) \<longrightarrow>
        instruction_parts yaml_dump s' =
          [baseInstructions, ''``` yaml'',
           yaml_dump \<lparr>dump_floors = floors s', dump_rooms = rooms s', dump_lights = lights s',
                      dump_shutters = shutters s', dump_sensors = sensors s',
                      dump_scenes = scenes s'\<rparr>,
           ''```''])"
proof -
  from update_Inr_udpateMemory [OF assms] obtain s0 where s': "s' = udpateMemory yaml_dump s0"
    by blast
  have a: "instructions s' = join [CHR 0x0A] (instruction_parts yaml_dump s')"
    unfolding s' by simp
  show ?thesis
    using a instruction_parts_fallback_iff [of yaml_dump s'] instruction_parts_dump [of s' yaml_dump]
    by blast
qed

theorem instructions_after_update_witness:
  "\<exists>s'. update no_dump 5 (EntitiesResult [light_a]) cached_state = Inr s' \<and>
        lights s' \<noteq> [] \<and>
        instruction_parts no_dump s' \<noteq> [baseInstructions, defaultInstructions] \<and>
        instructions s' = join [CHR 0x0A] (instruction_parts no_dump s') \<and>
        instruction_parts no_dump s' =
          [baseInstructions, ''``` yaml'',
           no_dump \<lparr>dump_floors = floors s', dump_rooms = rooms s', dump_lights = lights s',
                    dump_shutters = shutters s', dump_sensors = sensors s',
                    dump_scenes = scenes s'\<rparr>,
           ''```'']"
proof -
  let ?s' = "udpateMemory no_dump
            (cached_state\<lparr>lights := devices_of ''light'' (states cached_state) [light_a],
               shutters := devices_of ''cover'' (states cached_state) [light_a],
               sensors := sensors_of (states cached_state) (units cached_state) [light_a],
               scenes := scenes_of [light_a]\<rparr>)"
  have run: "update no_dump 5 (EntitiesResult [light_a]) cached_state = Inr ?s'"
    by (rule update_entities [OF types_cached_5])
  have l: "lights ?s' \<noteq> []"
    by (simp add: devices_of_def light_a_def startsWith_def)
  note t = instructions_after_update [OF run]
  show ?thesis using run l t by blast
qed

subsection \<open>Closing, failed authentication and the request counter\<close>

lemma call_open_fields:
  assumes "socket_open s"
  shows "fst (call type params s)"
    and "socket_open (snd (call type params s))"
    and "frames_sent (snd (call type params s)) = frames_sent s @ [Request type (id_counter s) params]"
    and "types (snd (call type params s)) = (types s)(id_counter s \<mapsto> type)"
    and "id_counter (snd (call type params s)) = id_counter s + 1"
  using assms
  by (auto simp: call_def socket_open_def frames_sent_def split: option.splits)

lemma calls_open:
  "socket_open s \<Longrightarrow>
   socket_open (calls rs s) \<and>
   frames_sent (calls rs s) = frames_sent s @ numbered (id_counter s) rs \<and>
   id_counter (calls rs s) = id_counter s + length rs"
proof (induction rs arbitrary: s)
  case Nil
  then show ?case by simp
next
  case (Cons r rs)
  obtain type params where r: "r = (type, params)" by (cases r)
  from Cons.IH [OF call_open_fields(2) [OF Cons.prems, of type params]]
  show ?case
    by (simp add: r call_open_fields(3,5) [OF Cons.prems])
qed

lemma calls_types:
  "socket_open s \<Longrightarrow>
   types (calls rs s) k =
     (if id_counter s \<le> k \<and> k < id_counter s + length rs
      then Some (fst (rs ! (k - id_counter s))) else types s k)"
proof (induction rs arbitrary: s)
  case Nil
  then show ?case by auto
next
  case (Cons r rs)
  obtain type params where r: "r = (type, params)" by (cases r)
  let ?s1 = "snd (call type params s)"
  have ih: "types (calls rs ?s1) k =
     (if id_counter ?s1 \<le> k \<and> k < id_counter ?s1 + length rs
      then Some (fst (rs ! (k - id_counter ?s1))) else types ?s1 k)"
    by (rule Cons.IH [OF call_open_fields(2) [OF Cons.prems]])
  show ?case
  proof (cases "k = id_counter s")
    case True
    with ih show ?thesis
      by (simp add: r call_open_fields(4,5) [OF Cons.prems])
  next
    case False
    with ih show ?thesis
      by (auto simp: r call_open_fields(4,5) [OF Cons.prems] nth_Cons' Suc_diff_le)
  qed
qed

lemma five_calls_calls: "five_calls s = calls refresh_requests s"
  by (simp add: five_calls_def refresh_requests_def Let_def)

text \<open>
  C5 as stated fails on the raw caches: after the close handler of \<^verbatim>\<open>index.mjs\<close>
  the \<open>states\<close> map, the \<open>units\<close> map and the pending-request table still hold
  their entries.
\<close>

theorem caches_survive_close_counterexample:
  "states (onclose_index cached_state) ''light.a'' = Some (JStr ''off'') \<and>
   units (onclose_index cached_state) ''sensor.t'' = Some (JStr ''C'') \<and>
   types (onclose_index cached_state) 2 = Some ''get_states''"
  by (simp add: onclose_index_def setTimeout_def clearTimeout_def addError_def Let_def
      cached_state_def open_state_def initial_state_def)

text \<open>
  C5, amended. On a socket close event, \<^verbatim>\<open>index.mjs\<close> empties the six derived
  collections, resets the request counter to 1, reports \<^verbatim>\<open>Server unreachable\<close>
  through the host's error surface, cancels the refresh interval when one is set and
  schedules a reconnect after 1000 ms. \<^verbatim>\<open>main.mjs\<close> only schedules a reconnect
  after 5000 ms and remembers its handle; its six collections are emptied when that
  \<^verbatim>\<open>connect\<close> runs, and it reports no error. In both variants the \<open>states\<close>
  map, the \<open>units\<close> map and the pending-request table are left as they are: nothing
  in the program removes an entry from them.
\<close>

theorem socket_close_effects:
  "floors (onclose_index s) = [] \<and> rooms (onclose_index s) = [] \<and>
   lights (onclose_index s) = [] \<and> shutters (onclose_index s) = [] \<and>
   sensors (onclose_index s) = [] \<and> scenes (onclose_index s) = [] \<and>
   id_counter (onclose_index s) = 1 \<and>
   errors (onclose_index s) = errors s @ [''Server unreachable''] \<and>
   timers (onclose_index s) =
     filter (\<lambda>t. Some (handle t) \<noteq> interval s) (timers s) @
     [\<lparr>handle = next_handle s, callback = connect_cb, delay = 1000, repeating = False\<rparr>] \<and>
   states (onclose_index s) = states s \<and> units (onclose_index s) = units s \<and>
   types (onclose_index s) = types s \<and>
   onclose_main s =
     s\<lparr>timers := timers s @
          [\<lparr>handle = next_handle s, callback = connect_cb, delay = 5000, repeating = False\<rparr>],
       next_handle := next_handle s + 1,
       connectTimeout := Some (next_handle s)\<rparr> \<and>
   (\<exists>s'. connect_main None (onclose_main s) = Inr s' \<and>
      floors s' = [] \<and> rooms s' = [] \<and> lights s' = [] \<and> shutters s' = [] \<and>
      sensors s' = [] \<and> scenes s' = [] \<and>
      states s' = states s \<and> units s' = units s \<and> types s' = types s \<and>
      errors s' = errors s)"
  by (cases "interval s")
    (simp_all add: onclose_index_def onclose_main_def connect_main_def setTimeout_def
      clearTimeout_def addError_def Let_def)

text \<open>
  C6 as stated fails in \<^verbatim>\<open>index.mjs\<close>: on \<^verbatim>\<open>auth_invalid\<close> the error
  is reported, but the counter keeps its value and no reconnect is scheduled.
\<close>

theorem auth_invalid_index_counterexample:
  "\<exists>s'. onmessage_index no_dump (AuthInvalid ''Invalid password'') cached_state = Inr s' \<and>
        id_counter s' = 6 \<and> timers s' = [] \<and> errors s' = [''Invalid password'']"
  by (simp add: onmessage_index_def addError_def cached_state_def open_state_def initial_state_def)

text \<open>
  C6, amended. On an \<^verbatim>\<open>auth_invalid\<close> message, \<^verbatim>\<open>index.mjs\<close> reports
  the server-supplied message through the host's error surface and changes nothing else
  (its counter is reset and its reconnect scheduled by the close handler, when the server
  closes the socket); \<^verbatim>\<open>main.mjs\<close> resets the request counter to 1, schedules a
  reconnect after 5000 ms and writes the fixed text \<^verbatim>\<open>Authentication failure\<close> to
  the console, without reporting the server's message to the host. Neither variant sends
  a frame: the socket is as it was.
\<close>

theorem auth_invalid_effects:
  "onmessage_index yaml_dump (AuthInvalid msg) s = Inr (s\<lparr>errors := errors s @ [msg]\<rparr>) \<and>
   onmessage_main yaml_dump (AuthInvalid msg) s =
     Inr (s\<lparr>timers := timers s @
               [\<lparr>handle = next_handle s, callback = connect_cb, delay = 5000, repeating = False\<rparr>],
            next_handle := next_handle s + 1,
            connectTimeout := Some (next_handle s),
            id_counter := 1,
            console_error := console_error s @ [''Authentication failure'']\<rparr>)"
  by (simp add: onmessage_index_def onmessage_main_def addError_def setTimeout_def)

text \<open>
  C8. In \<^verbatim>\<open>main.mjs\<close> the counter is not reset on reconnect. Its
  \<^verbatim>\<open>auth_invalid\<close> branch schedules \<^verbatim>\<open>connect\<close> and assigns
  \<^verbatim>\<open>id = 1\<close>, and the close handler of \<^verbatim>\<open>index.mjs\<close> assigns it too;
  the close handler of \<^verbatim>\<open>main.mjs\<close> schedules the same \<^verbatim>\<open>connect\<close>
  without the assignment, and \<^verbatim>\<open>connect\<close> does not make it either. From the
  state after one \<^verbatim>\<open>refresh\<close> (counter 6), after the socket closes and the
  reconnect opens a new one, the first request sent on the new socket carries 6, where
  the same close in \<^verbatim>\<open>index.mjs\<close>, and \<^verbatim>\<open>auth_invalid\<close> in
  \<^verbatim>\<open>main.mjs\<close>, leave the counter at 1.
\<close>

theorem main_close_keeps_counter:
  "(\<exists>s'. connect_main None (onclose_main (set_readyState CLOSED cached_state)) = Inr s' \<and>
         frames_sent s' = [] \<and> id_counter s' = 6 \<and>
         frames_sent (snd (call ''get_config'' None (set_readyState OPEN s'))) =
           [Request ''get_config'' 6 None]) \<and>
   id_counter (onclose_index (set_readyState CLOSED cached_state)) = 1 \<and>
   (\<exists>s'. onmessage_main no_dump (AuthInvalid ''Invalid access token or password'') cached_state =
           Inr s' \<and> id_counter s' = 1)"
proof -
  have a: "\<exists>s'. connect_main None (onclose_main (set_readyState CLOSED cached_state)) = Inr s' \<and>
         frames_sent s' = [] \<and> id_counter s' = 6 \<and>
         frames_sent (snd (call ''get_config'' None (set_readyState OPEN s'))) =
           [Request ''get_config'' 6 None]"
    by (simp add: connect_main_def onclose_main_def setTimeout_def clearTimeout_def Let_def
        set_readyState_def cached_state_def open_state_def initial_state_def new_socket_def
        frames_sent_def call_def)
  have b: "id_counter (onclose_index (set_readyState CLOSED cached_state)) = 1"
    by (simp add: onclose_index_def addError_def Let_def)
  have c: "\<exists>s'. onmessage_main no_dump (AuthInvalid ''Invalid access token or password'') cached_state =
           Inr s' \<and> id_counter s' = 1"
    by (simp add: onmessage_main_def setTimeout_def)
  show ?thesis using a b c by blast
qed

text \<open>
  What the program does meet: the counter starts at 1; while the socket is open, every run
  of requests is sent with consecutive identifiers starting at the counter's value, the
  pending-request table records each request's kind under its identifier, and the counter
  ends past the last one; the close handler of \<^verbatim>\<open>index.mjs\<close> resets the counter
  to 1, so that the first request on the socket opened by the reconnect that follows
  carries 1; so does the \<^verbatim>\<open>auth_invalid\<close> branch of \<^verbatim>\<open>main.mjs\<close>.
\<close>

lemma consecutive_identifiers:
  "id_counter initial_state = 1 \<and>
   (socket_open s \<longrightarrow>
      frames_sent (calls rs s) = frames_sent s @ numbered (id_counter s) rs \<and>
      id_counter (calls rs s) = id_counter s + length rs \<and>
      (\<forall>j < length rs. types (calls rs s) (id_counter s + j) = Some (fst (rs ! j)))) \<and>
   id_counter (onclose_index s) = 1 \<and>
   frames_sent (snd (call type params
      (set_readyState OPEN (connect_index None (onclose_index s))))) = [Request type 1 params] \<and>
   (\<exists>s'. onmessage_main yaml_dump (AuthInvalid msg) s = Inr s' \<and> id_counter s' = 1)"
proof -
  have a: "id_counter initial_state = 1" by (simp add: initial_state_def)
  have b: "frames_sent (calls rs s) = frames_sent s @ numbered (id_counter s) rs \<and>
      id_counter (calls rs s) = id_counter s + length rs \<and>
      (\<forall>j < length rs. types (calls rs s) (id_counter s + j) = Some (fst (rs ! j)))"
    if "socket_open s"
    using calls_open [OF that, of rs] by (simp add: calls_types [OF that])
  have c: "id_counter (onclose_index s) = 1"
    by (simp add: onclose_index_def addError_def Let_def)
  have d: "\<exists>s'. onmessage_main yaml_dump (AuthInvalid msg) s = Inr s' \<and> id_counter s' = 1"
    by (simp add: onmessage_main_def setTimeout_def)
  have g: "frames_sent (snd (call type params
      (set_readyState OPEN (connect_index None (onclose_index s))))) = [Request type 1 params]"
    by (simp add: call_def set_readyState_def connect_index_def onclose_index_def new_socket_def
        frames_sent_def addError_def setTimeout_def Let_def)
  show ?thesis using a b c d g by blast
qed

lemma refresh_sends_one_to_five:
  "socket_open open_state \<and>
   frames_sent (refresh_index open_state) =
     [Auth ''token'', Request ''get_config'' 1 None, Request ''get_states'' 2 None,
      Request ''config/floor_registry/list'' 3 None, Request ''config/area_registry/list'' 4 None,
      Request ''config/entity_registry/list'' 5 None] \<and>
   id_counter (refresh_index open_state) = 6 \<and>
   types (refresh_index open_state) 2 = Some ''get_states'' \<and>
   types (refresh_index open_state) 5 = Some ''config/entity_registry/list''"
proof -
  have o: "socket_open open_state"
    by (simp add: socket_open_def open_state_def initial_state_def)
  have i: "id_counter open_state = 1" by (simp add: open_state_def initial_state_def)
  have f: "frames_sent open_state = [Auth ''token'']"
    by (simp add: frames_sent_def open_state_def initial_state_def)
  have r: "refresh_index open_state = calls refresh_requests open_state"
    by (simp add: refresh_index_def five_calls_calls)
  from consecutive_identifiers [of open_state refresh_requests] o
  have t: "frames_sent (calls refresh_requests open_state) =
        frames_sent open_state @ numbered (id_counter open_state) refresh_requests"
    and n: "id_counter (calls refresh_requests open_state) =
        id_counter open_state + length refresh_requests"
    and k: "\<And>j. j < length refresh_requests \<Longrightarrow>
        types (calls refresh_requests open_state) (id_counter open_state + j) =
        Some (fst (refresh_requests ! j))"
    by blast+
  have "frames_sent (refresh_index open_state) =
     [Auth ''token'', Request ''get_config'' 1 None, Request ''get_states'' 2 None,
      Request ''config/floor_registry/list'' 3 None, Request ''config/area_registry/list'' 4 None,
      Request ''config/entity_registry/list'' 5 None]"
    unfolding r t by (simp add: i f refresh_requests_def)
  moreover have "id_counter (refresh_index open_state) = 6"
    unfolding r n by (simp add: i refresh_requests_def)
  moreover have "types (refresh_index open_state) 2 = Some ''get_states''"
  proof -
    have "id_counter open_state + 1 = 2" by (simp add: i)
    moreover have "1 < length refresh_requests" by (simp add: refresh_requests_def)
    moreover have "fst (refresh_requests ! 1) = ''get_states''" by (simp add: refresh_requests_def)
    ultimately show ?thesis unfolding r using k [of 1] by (simp only:)
  qed
  moreover have "types (refresh_index open_state) 5 = Some ''config/entity_registry/list''"
  proof -
    have "id_counter open_state + 4 = 5" by (simp add: i)
    moreover have "4 < length refresh_requests" by (simp add: refresh_requests_def)
    moreover have "fst (refresh_requests ! 4) = ''config/entity_registry/list''"
      by (simp add: refresh_requests_def)
    ultimately show ?thesis unfolding r using k [of 4] by (simp only:)
  qed
  ultimately show ?thesis using o by blast
qed

end
